theory Spec2Isabelle
  imports
    Complex_Main
    "HOL-Library.Char_ord"
    "HOL-Library.List_Lexorder"
    "HOL-Library.Product_Lexorder"
    "HOL-Library.Multiset"
begin

section \<open>Values of numpy and pandas\<close>

text \<open>
  The scoring pipeline of the repository computes on pandas frames and numpy arrays of
  binary64 numbers. Finite numbers are modelled as exact reals: rounding of the last bit
  is not part of the model. What is modelled of IEEE arithmetic is what the pipeline can
  meet and what changes its control flow: a division by zero gives \<open>NaN\<close> or an
  infinity, comparisons with \<open>NaN\<close> are false, and a cast of \<open>NaN\<close> to an
  integer raises.

  A frame is the list of its rows. Every frame of the pipeline is built from a list of
  dictionaries with the same keys, so a frame has its columns exactly when it has a row:
  \<^verbatim>\<open>pd.DataFrame([])\<close> and \<^verbatim>\<open>pd.DataFrame()\<close> have neither, and reading a column of
  such a frame raises \<^verbatim>\<open>KeyError\<close>.
\<close>

datatype py_error = KeyError string | ValueError string

datatype npfloat = Fin real | NaN | PosInf | NegInf

text \<open>\<^verbatim>\<open>np.clip(x, lo, hi)\<close> on a finite number.\<close>

definition clip :: "real \<Rightarrow> real \<Rightarrow> real \<Rightarrow> real" where
  "clip x lo hi = min (max x lo) hi"

text \<open>\<^verbatim>\<open>a / b\<close> of two finite numpy numbers (a warning, never an exception).\<close>

definition np_true_divide :: "real \<Rightarrow> real \<Rightarrow> npfloat" where
  "np_true_divide a b =
     (if b \<noteq> 0 then Fin (a / b)
      else if a = 0 then NaN
      else if 0 < a then PosInf else NegInf)"

text \<open>Division of a possibly undefined number by a positive finite one.\<close>

fun np_divide_pos :: "npfloat \<Rightarrow> real \<Rightarrow> npfloat" where
  "np_divide_pos (Fin a) b = Fin (a / b)"
| "np_divide_pos NaN b = NaN"
| "np_divide_pos PosInf b = PosInf"
| "np_divide_pos NegInf b = NegInf"

text \<open>IEEE comparison: every comparison with \<open>NaN\<close> is false.\<close>

fun np_less :: "npfloat \<Rightarrow> npfloat \<Rightarrow> bool" where
  "np_less (Fin a) (Fin b) = (a < b)"
| "np_less NaN y = False"
| "np_less x NaN = False"
| "np_less NegInf NegInf = False"
| "np_less NegInf y = True"
| "np_less x NegInf = False"
| "np_less PosInf y = False"
| "np_less x PosInf = True"

text \<open>\<^verbatim>\<open>Series.round(0)\<close> followed by \<^verbatim>\<open>astype(int)\<close>: numpy rounds halves to the even
  neighbour.\<close>

definition np_round :: "real \<Rightarrow> int" where
  "np_round x =
     (let f = \<lfloor>x\<rfloor>; d = x - of_int f
      in if d < 1 / 2 then f
         else if 1 / 2 < d then f + 1
         else if even f then f else f + 1)"

text \<open>\<^verbatim>\<open>Series.mean()\<close>, \<^verbatim>\<open>Series.var()\<close> and \<^verbatim>\<open>Series.std()\<close> (sample statistics,
  \<open>ddof = 1\<close>): the variance of fewer than two values is \<open>0 / 0\<close>.\<close>

definition series_mean :: "real list \<Rightarrow> real" where
  "series_mean xs = sum_list xs / of_nat (length xs)"

definition sample_var :: "real list \<Rightarrow> real" where
  "sample_var xs =
     sum_list (map (\<lambda>x. (x - series_mean xs)\<^sup>2) xs) / of_nat (length xs - 1)"

definition series_var :: "real list \<Rightarrow> npfloat" where
  "series_var xs = (if length xs < 2 then NaN else Fin (sample_var xs))"

fun np_sqrt :: "npfloat \<Rightarrow> npfloat" where
  "np_sqrt (Fin a) = (if a < 0 then NaN else Fin (sqrt a))"
| "np_sqrt NaN = NaN"
| "np_sqrt PosInf = PosInf"
| "np_sqrt NegInf = NaN"

definition series_std :: "real list \<Rightarrow> npfloat" where
  "series_std xs = np_sqrt (series_var xs)"

text \<open>\<^verbatim>\<open>Series.quantile(q)\<close>: linear interpolation between the two nearest order
  statistics; undefined values are skipped, and the quantile of no value is \<open>NaN\<close>.\<close>

definition quantile :: "real \<Rightarrow> real list \<Rightarrow> npfloat" where
  "quantile q xs =
     (if xs = [] then NaN
      else let s = sort xs;
               pos = q * of_nat (length xs - 1);
               lo = nat \<lfloor>pos\<rfloor>;
               hi = nat \<lceil>pos\<rceil>
           in Fin (s ! lo + (s ! hi - s ! lo) * (pos - of_nat lo)))"

fun finite_values :: "npfloat list \<Rightarrow> real list" where
  "finite_values [] = []"
| "finite_values (Fin a # xs) = a # finite_values xs"
| "finite_values (x # xs) = finite_values xs"

text \<open>\<^verbatim>\<open>Series.max()\<close> of a column with at least one row.\<close>

fun series_max :: "'a::linorder \<Rightarrow> 'a list \<Rightarrow> 'a" where
  "series_max x xs = fold max xs x"

fun series_min :: "'a::linorder \<Rightarrow> 'a list \<Rightarrow> 'a" where
  "series_min x xs = fold min xs x"

text \<open>The maximum of a column whose frame may have no row; \<open>d\<close> stands for the value that
  makes the test \<^verbatim>\<open>column.max() > 0\<close> false there.\<close>

definition column_max :: "('a::linorder) list \<Rightarrow> 'a \<Rightarrow> 'a" where
  "column_max xs d = (case xs of [] \<Rightarrow> d | x # rest \<Rightarrow> series_max x rest)"

section \<open>Transaction normalizer (compound\_processor.py)\<close>

text \<open>
  A raw transaction is a dictionary; a key may be absent, and \<^verbatim>\<open>tx.get(key, default)\<close>
  then gives the default. The fields are taken after the coercions \<^verbatim>\<open>int(...)\<close> and
  \<^verbatim>\<open>float(...)\<close> of the source. The address and token columns (\<^verbatim>\<open>from_address\<close>,
  \<^verbatim>\<open>to_address\<close>, \<^verbatim>\<open>tx_type\<close>, \<^verbatim>\<open>token_*\<close>) are read by no later stage and are left out.
\<close>

record raw_transaction =
  raw_hash :: "string option"
  raw_blockNumber :: "int option"
  raw_timeStamp :: "int option"
  raw_value :: "real option"
  raw_gasUsed :: "int option"
  raw_gasPrice :: "int option"
  raw_compound_action :: "string option"
  raw_isError :: "int option"

record raw_wallet =
  address :: string
  transactions :: "raw_transaction list option"

record transaction =
  tx_wallet_address :: string
  tx_hash :: string
  block_number :: int
  timestamp :: int
  tx_value :: real
  gas_used :: int
  gas_price :: int
  tx_fee :: real
  compound_action :: string
  is_error :: int

definition dict_get :: "'a option \<Rightarrow> 'a \<Rightarrow> 'a" where
  "dict_get v d = (case v of None \<Rightarrow> d | Some x \<Rightarrow> x)"

definition processed_tx :: "string \<Rightarrow> raw_transaction \<Rightarrow> transaction" where
  "processed_tx addr tx =
     \<lparr> tx_wallet_address = addr,
       tx_hash = dict_get (raw_hash tx) '''',
       block_number = dict_get (raw_blockNumber tx) 0,
       timestamp = dict_get (raw_timeStamp tx) 0,
       tx_value = dict_get (raw_value tx) 0 / 10 ^ 18,
       gas_used = dict_get (raw_gasUsed tx) 0,
       gas_price = dict_get (raw_gasPrice tx) 0,
       tx_fee = of_int (dict_get (raw_gasUsed tx) 0 * dict_get (raw_gasPrice tx) 0) / 10 ^ 18,
       compound_action = dict_get (raw_compound_action tx) ''unknown'',
       is_error = dict_get (raw_isError tx) 0 \<rparr>"

text \<open>The two nested loops of \<^verbatim>\<open>process_wallet_data\<close>: one row per transaction, in input
  order.\<close>

definition all_transactions :: "raw_wallet list \<Rightarrow> transaction list" where
  "all_transactions wallet_data =
     concat (map (\<lambda>wallet. map (processed_tx (address wallet))
                                (dict_get (transactions wallet) [])) wallet_data)"

text \<open>\<^verbatim>\<open>df.sort_values(['wallet_address', 'timestamp'])\<close>: pandas sorts on several keys
  with a stable lexicographic sort, which is what \<^const>\<open>sort_key\<close> on the pair is.\<close>

definition process_wallet_data :: "raw_wallet list \<Rightarrow> transaction list" where
  "process_wallet_data wallet_data =
     (let df = all_transactions wallet_data
      in if 0 < length df
         then sort_key (\<lambda>t. (tx_wallet_address t, timestamp t)) df
         else df)"

text \<open>The columns derived from \<^verbatim>\<open>pd.to_datetime(df['timestamp'], unit='s')\<close>: the day
  (counted from 1970-01-01, a Thursday), the hour, and the day of the week with
  Monday as 0.\<close>

definition tx_date :: "transaction \<Rightarrow> int" where
  "tx_date t = timestamp t div 86400"

definition tx_hour :: "transaction \<Rightarrow> int" where
  "tx_hour t = (timestamp t mod 86400) div 3600"

definition tx_day_of_week :: "transaction \<Rightarrow> int" where
  "tx_day_of_week t = (timestamp t div 86400 + 3) mod 7"

section \<open>Wallet metrics aggregator (compound\_processor.py)\<close>

record wallet_metrics =
  wallet_address :: string
  total_transactions :: int
  successful_transactions :: int
  failed_transactions :: int
  success_rate :: real
  first_tx_date :: int
  last_tx_date :: int
  account_age_days :: real
  avg_tx_interval_days :: real
  mint_count :: int
  redeem_count :: int
  redeemUnderlying_count :: int
  borrow_count :: int
  repayBorrow_count :: int
  liquidateBorrow_count :: int
  supply_ratio :: real
  withdraw_ratio :: real
  borrow_ratio :: real
  repay_ratio :: real
  liquidation_count :: int
  has_liquidations :: int
  liquidation_rate :: real
  total_gas_spent :: real
  avg_gas_per_tx :: real
  total_eth_value :: real
  avg_eth_per_tx :: real
  avg_time_between_txs :: real
  std_time_between_txs :: npfloat
  activity_regularity :: npfloat
  action_diversity :: int
  weekend_activity_ratio :: real
  night_activity_ratio :: real
  repay_to_borrow_ratio :: real
  max_daily_transactions :: int
  avg_daily_transactions :: real
  daily_activity_variance :: real

text \<open>The local values of \<^verbatim>\<open>_calculate_single_wallet_metrics\<close>.\<close>

definition successful_txs :: "transaction list \<Rightarrow> transaction list" where
  "successful_txs txs = filter (\<lambda>t. is_error t = 0) txs"

text \<open>\<^verbatim>\<open>action_counts.get(action, 0)\<close> on \<^verbatim>\<open>txs['compound_action'].value_counts()\<close>.\<close>

definition action_counts :: "transaction list \<Rightarrow> string \<Rightarrow> int" where
  "action_counts txs action = int (length (filter (\<lambda>t. compound_action t = action) txs))"

definition total_actions :: "transaction list \<Rightarrow> int" where
  "total_actions txs =
     sum_list (map (action_counts txs)
       [''mint'', ''redeem'', ''redeemUnderlying'', ''borrow'', ''repayBorrow''])"

text \<open>\<^verbatim>\<open>txs['timestamp'].diff().dropna() / 3600\<close>.\<close>

definition time_diffs :: "transaction list \<Rightarrow> real list" where
  "time_diffs txs =
     map (\<lambda>(a, b). of_int (b - a) / 3600) (zip (map timestamp txs) (tl (map timestamp txs)))"

text \<open>\<^verbatim>\<open>txs.groupby('date').size()\<close>: one count per day, in the order of the days.\<close>

definition daily_tx_counts :: "transaction list \<Rightarrow> int list" where
  "daily_tx_counts txs =
     map (\<lambda>d. int (length (filter (\<lambda>t. tx_date t = d) txs))) (sort (remdups (map tx_date txs)))"

definition first_timestamp :: "transaction list \<Rightarrow> int" where
  "first_timestamp txs = (case map timestamp txs of [] \<Rightarrow> 0 | t # ts \<Rightarrow> series_min t ts)"

definition last_timestamp :: "transaction list \<Rightarrow> int" where
  "last_timestamp txs = (case map timestamp txs of [] \<Rightarrow> 0 | t # ts \<Rightarrow> series_max t ts)"

definition age_days :: "transaction list \<Rightarrow> real" where
  "age_days txs =
     (if 0 < length txs then of_int (last_timestamp txs - first_timestamp txs) / 86400 else 0)"

text \<open>\<^verbatim>\<open>_calculate_single_wallet_metrics\<close>, key by key in the order of the source. Both
  branches of every \<^verbatim>\<open>if len(txs) > 0\<close> are kept.\<close>

definition calculate_single_wallet_metrics :: "string \<Rightarrow> transaction list \<Rightarrow> wallet_metrics" where
  "calculate_single_wallet_metrics addr txs =
     \<lparr> wallet_address = addr,
       total_transactions = int (length txs),
       successful_transactions = int (length (successful_txs txs)),
       failed_transactions = int (length (filter (\<lambda>t. is_error t = 1) txs)),
       success_rate = of_int (int (length (successful_txs txs))) / of_int (max (int (length txs)) 1),
       first_tx_date = first_timestamp txs,
       last_tx_date = last_timestamp txs,
       account_age_days = age_days txs,
       avg_tx_interval_days =
         (if 0 < length txs then age_days txs / of_int (max (int (length txs) - 1) 1) else 0),
       mint_count = action_counts txs ''mint'',
       redeem_count = action_counts txs ''redeem'',
       redeemUnderlying_count = action_counts txs ''redeemUnderlying'',
       borrow_count = action_counts txs ''borrow'',
       repayBorrow_count = action_counts txs ''repayBorrow'',
       liquidateBorrow_count = action_counts txs ''liquidateBorrow'',
       supply_ratio =
         (if 0 < total_actions txs
          then of_int (action_counts txs ''mint'') / of_int (total_actions txs) else 0),
       withdraw_ratio =
         (if 0 < total_actions txs
          then of_int (action_counts txs ''redeem'' + action_counts txs ''redeemUnderlying'')
                 / of_int (total_actions txs)
          else 0),
       borrow_ratio =
         (if 0 < total_actions txs
          then of_int (action_counts txs ''borrow'') / of_int (total_actions txs) else 0),
       repay_ratio =
         (if 0 < total_actions txs
          then of_int (action_counts txs ''repayBorrow'') / of_int (total_actions txs) else 0),
       liquidation_count = action_counts txs ''liquidateBorrow'',
       has_liquidations = (if 0 < action_counts txs ''liquidateBorrow'' then 1 else 0),
       liquidation_rate =
         of_int (action_counts txs ''liquidateBorrow'') / of_int (max (int (length txs)) 1),
       total_gas_spent =
         (if 0 < length (successful_txs txs) then sum_list (map tx_fee (successful_txs txs)) else 0),
       avg_gas_per_tx =
         (if 0 < length (successful_txs txs) then series_mean (map tx_fee (successful_txs txs)) else 0),
       total_eth_value =
         (if 0 < length (successful_txs txs) then sum_list (map tx_value (successful_txs txs)) else 0),
       avg_eth_per_tx =
         (if 0 < length (successful_txs txs) then series_mean (map tx_value (successful_txs txs)) else 0),
       avg_time_between_txs = (if 1 < length txs then series_mean (time_diffs txs) else 0),
       std_time_between_txs = (if 1 < length txs then series_std (time_diffs txs) else Fin 0),
       activity_regularity =
         (if 1 < length txs
          then (if 0 < series_mean (time_diffs txs)
                then np_divide_pos (series_std (time_diffs txs)) (series_mean (time_diffs txs))
                else Fin 0)
          else Fin 0),
       action_diversity = int (length (remdups (map compound_action txs))),
       weekend_activity_ratio =
         of_int (int (length (filter (\<lambda>t. tx_day_of_week t \<in> {5, 6}) txs)))
           / of_int (max (int (length txs)) 1),
       night_activity_ratio =
         of_int (int (length (filter (\<lambda>t. 0 \<le> tx_hour t \<and> tx_hour t \<le> 6) txs)))
           / of_int (max (int (length txs)) 1),
       repay_to_borrow_ratio =
         of_int (action_counts txs ''repayBorrow'') / of_int (max (action_counts txs ''borrow'') 1),
       max_daily_transactions =
         (if 0 < length txs then column_max (daily_tx_counts txs) 0 else 0),
       avg_daily_transactions =
         (if 0 < length txs then series_mean (map of_int (daily_tx_counts txs)) else 0),
       daily_activity_variance =
         (if 0 < length txs \<and> 1 < length (daily_tx_counts txs)
          then sample_var (map of_int (daily_tx_counts txs)) else 0) \<rparr>"

text \<open>\<^verbatim>\<open>calculate_wallet_metrics\<close>: \<^verbatim>\<open>df.groupby('wallet_address')\<close> yields one group for
  every address that occurs in the table, in ascending order of the address, with the
  rows of the group in table order.\<close>

definition calculate_wallet_metrics :: "transaction list \<Rightarrow> wallet_metrics list" where
  "calculate_wallet_metrics df =
     (if length df = 0 then []
      else map (\<lambda>a. calculate_single_wallet_metrics a (filter (\<lambda>t. tx_wallet_address t = a) df))
               (sort (remdups (map tx_wallet_address df))))"

section \<open>Risk feature engine (risk\_analyzer.py)\<close>

text \<open>
  Every sub-score function starts from \<^verbatim>\<open>np.zeros(len(df))\<close> or \<^verbatim>\<open>np.ones(len(df))\<close>
  and then reads columns of the frame; on a frame without columns the first read raises
  \<^verbatim>\<open>KeyError\<close>. On a frame with rows all the operations are element-wise, so each
  function is a map of a function of one row, which also takes the statistics of the
  batch (quantiles, column maxima) that the source computes over the whole column.
\<close>

definition over_rows :: "string \<Rightarrow> ('row \<Rightarrow> 'a) \<Rightarrow> 'row list \<Rightarrow> py_error + 'a list" where
  "over_rows first_column f df = (if df = [] then Inl (KeyError first_column) else Inr (map f df))"

subsection \<open>Liquidation risk\<close>

definition liquidation_risk_row :: "wallet_metrics \<Rightarrow> real" where
  "liquidation_risk_row m =
     clip (0 + of_int (liquidation_count m) * 0.5
             + liquidation_rate m * 0.3
             + of_int (has_liquidations m) * 0.2) 0 1"

definition calculate_liquidation_risk :: "wallet_metrics list \<Rightarrow> py_error + real list" where
  "calculate_liquidation_risk df = over_rows ''liquidation_count'' liquidation_risk_row df"

subsection \<open>Behavioral risk\<close>

definition behavioral_risk_row :: "npfloat \<Rightarrow> wallet_metrics \<Rightarrow> real" where
  "behavioral_risk_row q80 m =
     clip (0 + (1 - success_rate m) * 0.3
             + (if np_less q80 (activity_regularity m) then 0.2 else 0)
             + clip (weekend_activity_ratio m - 0.3) 0 1 * 0.2
             + clip (night_activity_ratio m - 0.2) 0 1 * 0.3) 0 1"

definition calculate_behavioral_risk :: "wallet_metrics list \<Rightarrow> py_error + real list" where
  "calculate_behavioral_risk df =
     over_rows ''success_rate''
       (behavioral_risk_row (quantile 0.8 (finite_values (map activity_regularity df)))) df"

subsection \<open>Financial health\<close>

definition financial_health_row :: "real \<Rightarrow> npfloat \<Rightarrow> wallet_metrics \<Rightarrow> real" where
  "financial_health_row gas_max q90 m =
     clip (1 - (if repay_to_borrow_ratio m < 0.8 then 0.4 else 0)
             - (if action_diversity m \<le> 2 then 0.2 else 0)
             - (if account_age_days m < 30 then 0.2 else 0)
             - (if 0 < gas_max \<and> np_less q90 (Fin (avg_gas_per_tx m)) then 0.2 else 0)) 0 1"

definition calculate_financial_health :: "wallet_metrics list \<Rightarrow> py_error + real list" where
  "calculate_financial_health df =
     over_rows ''repay_to_borrow_ratio''
       (financial_health_row (column_max (map avg_gas_per_tx df) 0)
                             (quantile 0.9 (map avg_gas_per_tx df))) df"

subsection \<open>Activity pattern risk\<close>

definition activity_pattern_risk_row ::
    "real \<Rightarrow> npfloat \<Rightarrow> int \<Rightarrow> npfloat \<Rightarrow> wallet_metrics \<Rightarrow> real" where
  "activity_pattern_risk_row var_max var_q80 daily_max daily_q90 m =
     clip (0 + (if 0 < var_max \<and> np_less var_q80 (Fin (daily_activity_variance m)) then 0.3 else 0)
             + (if 0 < daily_max \<and> np_less daily_q90 (Fin (of_int (max_daily_transactions m)))
                then 0.4 else 0)
             + (if np_less (activity_regularity m) (Fin 0.1) \<and> 5 < total_transactions m
                then 0.3 else 0)) 0 1"

definition calculate_activity_pattern_risk :: "wallet_metrics list \<Rightarrow> py_error + real list" where
  "calculate_activity_pattern_risk df =
     over_rows ''daily_activity_variance''
       (activity_pattern_risk_row
          (column_max (map daily_activity_variance df) 0)
          (quantile 0.8 (map daily_activity_variance df))
          (column_max (map max_daily_transactions df) 0)
          (quantile 0.9 (map (\<lambda>m. of_int (max_daily_transactions m)) df))) df"

subsection \<open>Repayment behavior\<close>

definition repayment_behavior_row :: "wallet_metrics \<Rightarrow> real" where
  "repayment_behavior_row m =
     clip (0 + (if 1.0 \<le> repay_to_borrow_ratio m then 0.5 else 0)
             + (if 0.8 \<le> repay_to_borrow_ratio m \<and> repay_to_borrow_ratio m < 1.0 then 0.3 else 0)
             + (if \<not> 0 < borrow_count m then 0.2 else 0)
             + (if liquidation_count m = 0 then 0.3 else 0)) 0 1"

definition calculate_repayment_behavior :: "wallet_metrics list \<Rightarrow> py_error + real list" where
  "calculate_repayment_behavior df = over_rows ''repay_to_borrow_ratio'' repayment_behavior_row df"

subsection \<open>Experience\<close>

text \<open>The bounds of the age bins; \<open>None\<close> is \<^verbatim>\<open>float('inf')\<close>.\<close>

definition age_bins :: "real option list" where
  "age_bins = [Some 0, Some 30, Some 90, Some 180, Some 365, None]"

definition age_scores :: "real list" where
  "age_scores = [0.1, 0.3, 0.5, 0.7, 1.0]"

fun above_bound :: "real \<Rightarrow> real option \<Rightarrow> bool" where
  "above_bound x (Some b) = (b < x)"
| "above_bound x None = False"

fun upto_bound :: "real \<Rightarrow> real option \<Rightarrow> bool" where
  "upto_bound x (Some b) = (x \<le> b)"
| "upto_bound x None = True"

text \<open>The loop \<^verbatim>\<open>for i in range(len(age_bins) - 1)\<close> over one entry of the array that
  starts as \<^verbatim>\<open>np.zeros\<close>: the entry is overwritten when the age lies in bin \<open>i\<close>.\<close>

definition age_bin_step :: "real \<Rightarrow> nat \<Rightarrow> real \<Rightarrow> real" where
  "age_bin_step age i score =
     (if above_bound age (age_bins ! i) \<and> upto_bound age (age_bins ! (i + 1))
      then age_scores ! i else score)"

definition age_score :: "real \<Rightarrow> real" where
  "age_score age = fold (age_bin_step age) [0..<length age_bins - 1] 0"

definition experience_score_row :: "npfloat \<Rightarrow> wallet_metrics \<Rightarrow> real" where
  "experience_score_row q70 m =
     clip (age_score (account_age_days m)
             + (if np_less q70 (Fin (of_int (total_transactions m))) then 0.2 else 0)
             + (if np_less (Fin 0.1) (activity_regularity m)
                   \<and> np_less (activity_regularity m) (Fin 1.0) then 0.1 else 0)) 0 1"

definition calculate_experience_score :: "wallet_metrics list \<Rightarrow> py_error + real list" where
  "calculate_experience_score df =
     over_rows ''account_age_days''
       (experience_score_row (quantile 0.7 (map (\<lambda>m. of_int (total_transactions m)) df))) df"

subsection \<open>Diversification\<close>

definition diversification_score_row :: "wallet_metrics \<Rightarrow> real" where
  "diversification_score_row m =
     clip (0 + clip (of_int (action_diversity m) / 5) 0 0.6
             + (1 - max (max (max (supply_ratio m) (withdraw_ratio m)) (borrow_ratio m))
                        (repay_ratio m)) * 0.4) 0 1"

definition calculate_diversification_score :: "wallet_metrics list \<Rightarrow> py_error + real list" where
  "calculate_diversification_score df = over_rows ''action_diversity'' diversification_score_row df"

subsection \<open>Bot-like behavior\<close>

definition bot_behavior_score_row :: "int \<Rightarrow> wallet_metrics \<Rightarrow> real" where
  "bot_behavior_score_row daily_max m =
     clip (0 + (if np_less (activity_regularity m) (Fin 0.05) \<and> 10 < total_transactions m
                then 0.4 else 0)
             + (if 0.5 < night_activity_ratio m then 0.3 else 0)
             + (if 0 < daily_max \<and> 50 < max_daily_transactions m then 0.3 else 0)) 0 1"

definition calculate_bot_behavior_score :: "wallet_metrics list \<Rightarrow> py_error + real list" where
  "calculate_bot_behavior_score df =
     over_rows ''activity_regularity''
       (bot_behavior_score_row (column_max (map max_daily_transactions df) 0)) df"

subsection \<open>The feature table\<close>

record risk_features =
  metrics :: wallet_metrics
  liquidation_risk_score :: real
  behavioral_risk_score :: real
  financial_health_score :: real
  activity_pattern_risk :: real
  repayment_behavior_score :: real
  experience_score :: real
  diversification_score :: real
  bot_behavior_score :: real

definition bind_err :: "'e + 'a \<Rightarrow> ('a \<Rightarrow> 'e + 'b) \<Rightarrow> 'e + 'b" where
  "bind_err r f = (case r of Inl e \<Rightarrow> Inl e | Inr x \<Rightarrow> f x)"

text \<open>\<^verbatim>\<open>calculate_risk_features\<close>: the eight sub-scores in the order of the source; the
  first one that raises ends the call.\<close>

definition calculate_risk_features :: "wallet_metrics list \<Rightarrow> py_error + risk_features list" where
  "calculate_risk_features wallet_metrics =
     bind_err (calculate_liquidation_risk wallet_metrics) (\<lambda>liq.
     bind_err (calculate_behavioral_risk wallet_metrics) (\<lambda>beh.
     bind_err (calculate_financial_health wallet_metrics) (\<lambda>fin.
     bind_err (calculate_activity_pattern_risk wallet_metrics) (\<lambda>act.
     bind_err (calculate_repayment_behavior wallet_metrics) (\<lambda>rep.
     bind_err (calculate_experience_score wallet_metrics) (\<lambda>expe.
     bind_err (calculate_diversification_score wallet_metrics) (\<lambda>divs.
     bind_err (calculate_bot_behavior_score wallet_metrics) (\<lambda>bot.
       Inr (map (\<lambda>i. \<lparr> metrics = wallet_metrics ! i,
                        liquidation_risk_score = liq ! i,
                        behavioral_risk_score = beh ! i,
                        financial_health_score = fin ! i,
                        activity_pattern_risk = act ! i,
                        repayment_behavior_score = rep ! i,
                        experience_score = expe ! i,
                        diversification_score = divs ! i,
                        bot_behavior_score = bot ! i \<rparr>)
                [0..<length wallet_metrics])))))))))"

section \<open>Anomaly detector (risk\_analyzer.py)\<close>

text \<open>
  \<^verbatim>\<open>StandardScaler\<close> and \<^verbatim>\<open>IsolationForest\<close> belong to scikit-learn, not to the
  repository: the fitted scaler and forest are one parameter, which maps the feature
  matrix to the decision scores, one for each row. What the repository does with the
  decision scores is the min-max normalisation.
\<close>

fun fillna :: "real \<Rightarrow> npfloat \<Rightarrow> npfloat" where
  "fillna d NaN = Fin d"
| "fillna d x = x"

definition feature_row :: "risk_features \<Rightarrow> npfloat list" where
  "feature_row r =
     [ Fin (of_int (total_transactions (metrics r))),
       Fin (success_rate (metrics r)),
       Fin (account_age_days (metrics r)),
       Fin (of_int (liquidation_count (metrics r))),
       Fin (repay_to_borrow_ratio (metrics r)),
       Fin (of_int (action_diversity (metrics r))),
       fillna 0 (activity_regularity (metrics r)),
       Fin (of_int (max_daily_transactions (metrics r))) ]"

text \<open>Lines 254 to 256 of the source: \<^verbatim>\<open>(s - s.min()) / (s.max() - s.min())\<close>. The
  reductions raise on an array of no element.\<close>

definition normalized_scores :: "real list \<Rightarrow> py_error + npfloat list" where
  "normalized_scores anomaly_decision_scores =
     (case anomaly_decision_scores of
        [] \<Rightarrow> Inl (ValueError ''zero-size array to reduction operation minimum which has no identity'')
      | d # ds \<Rightarrow>
          Inr (map (\<lambda>s. np_true_divide (s - series_min d ds) (series_max d ds - series_min d ds))
                   anomaly_decision_scores))"

definition detect_anomalies ::
    "(npfloat list list \<Rightarrow> real list) \<Rightarrow> risk_features list \<Rightarrow> py_error + npfloat list" where
  "detect_anomalies decision_function rf =
     (if rf = [] then Inr []
      else normalized_scores (decision_function (map feature_row rf)))"

section \<open>Score calculator (score\_calculator.py)\<close>

definition weights :: "(string \<times> real) list" where
  "weights =
     [ (''liquidation_risk'', 0.25),
       (''behavioral_risk'', 0.15),
       (''financial_health'', 0.20),
       (''activity_pattern_risk'', 0.10),
       (''repayment_behavior'', 0.15),
       (''experience'', 0.10),
       (''diversification'', 0.05) ]"

definition weight :: "string \<Rightarrow> real" where
  "weight k = the (map_of weights k)"

text \<open>\<^verbatim>\<open>_calculate_composite_score\<close> for one row of a frame that has its columns.\<close>

definition composite_score_row :: "risk_features \<Rightarrow> real" where
  "composite_score_row r =
     clip (0 + liquidation_risk_score r * weight ''liquidation_risk''
             + behavioral_risk_score r * weight ''behavioral_risk''
             + activity_pattern_risk r * weight ''activity_pattern_risk''
             + (1 - financial_health_score r) * weight ''financial_health''
             + (1 - repayment_behavior_score r) * weight ''repayment_behavior''
             + (1 - experience_score r) * weight ''experience''
             + (1 - diversification_score r) * weight ''diversification'') 0 1"

definition calculate_composite_score :: "risk_features list \<Rightarrow> real list" where
  "calculate_composite_score rf = map composite_score_row rf"

definition anomaly_adjustment :: "real \<Rightarrow> real" where
  "anomaly_adjustment anomaly = (1 - anomaly) * 0.1"

definition final_risk_score :: "real \<Rightarrow> real \<Rightarrow> real" where
  "final_risk_score composite anomaly = clip (composite - anomaly_adjustment anomaly) 0 1"

definition credit_score :: "real \<Rightarrow> real" where
  "credit_score final_risk = (1 - final_risk) * 1000"

text \<open>The credit score of a row whose anomaly score may be undefined: \<open>NaN\<close> goes through
  every step; an infinite anomaly score gives an infinite adjustment of the other sign,
  which \<^verbatim>\<open>np.clip\<close> brings back to 1 or 0.\<close>

fun credit_scores :: "real \<Rightarrow> npfloat \<Rightarrow> npfloat" where
  "credit_scores composite (Fin a) = Fin (credit_score (final_risk_score composite a))"
| "credit_scores composite NaN = NaN"
| "credit_scores composite PosInf = Fin (credit_score 1)"
| "credit_scores composite NegInf = Fin (credit_score 0)"

text \<open>The body of the loop of \<^verbatim>\<open>_categorize_risk\<close>.\<close>

definition categorize_risk :: "real \<Rightarrow> string" where
  "categorize_risk score =
     (if 800 \<le> score then ''Low Risk''
      else if 600 \<le> score then ''Medium-Low Risk''
      else if 400 \<le> score then ''Medium Risk''
      else if 200 \<le> score then ''High Risk''
      else ''Very High Risk'')"

record final_score =
  wallet_id :: string
  score :: int
  risk_category :: string
  liquidation_risk_component :: real
  behavioral_risk_component :: real
  financial_health_component :: real
  repayment_behavior_component :: real
  experience_component :: real
  anomaly_score :: npfloat
  out_total_transactions :: int
  out_account_age_days :: real
  out_liquidation_count :: int
  out_success_rate :: real

text \<open>One row of \<^verbatim>\<open>calculate_scores\<close>. The reported score is the rounded credit score; the
  category is computed from \<^verbatim>\<open>credit_scores\<close>, the credit score before rounding.
  \<^verbatim>\<open>astype(int)\<close> raises on a credit score that is not finite.\<close>

definition score_row :: "risk_features \<Rightarrow> npfloat \<Rightarrow> py_error + final_score" where
  "score_row r anomaly =
     (case credit_scores (composite_score_row r) anomaly of
        Fin credit \<Rightarrow>
          Inr \<lparr> wallet_id = wallet_address (metrics r),
                score = np_round credit,
                risk_category = categorize_risk credit,
                liquidation_risk_component = liquidation_risk_score r,
                behavioral_risk_component = behavioral_risk_score r,
                financial_health_component = financial_health_score r,
                repayment_behavior_component = repayment_behavior_score r,
                experience_component = experience_score r,
                anomaly_score = anomaly,
                out_total_transactions = total_transactions (metrics r),
                out_account_age_days = account_age_days (metrics r),
                out_liquidation_count = liquidation_count (metrics r),
                out_success_rate = success_rate (metrics r) \<rparr>
      | _ \<Rightarrow> Inl (ValueError ''Cannot convert non-finite values (NA or inf) to integer''))"

fun collect :: "('e + 'a) list \<Rightarrow> 'e + 'a list" where
  "collect [] = Inr []"
| "collect (Inl e # rs) = Inl e"
| "collect (Inr x # rs) = (case collect rs of Inl e \<Rightarrow> Inl e | Inr xs \<Rightarrow> Inr (x # xs))"

text \<open>\<^verbatim>\<open>calculate_scores\<close>: the column \<^verbatim>\<open>wallet_address\<close> is read first. The two
  arguments are aligned on their index; a label that only one of them has gives an
  undefined credit score, on which the cast raises.\<close>

definition calculate_scores :: "risk_features list \<Rightarrow> npfloat list \<Rightarrow> py_error + final_score list" where
  "calculate_scores rf anomaly_scores =
     (if rf = [] then Inl (KeyError ''wallet_address'')
      else if length anomaly_scores \<noteq> length rf
      then Inl (ValueError ''Cannot convert non-finite values (NA or inf) to integer'')
      else collect (map (\<lambda>(r, a). score_row r a) (zip rf anomaly_scores)))"

section \<open>Auxiliary facts\<close>

lemma clip_mono: "x \<le> y \<Longrightarrow> clip x lo hi \<le> clip y lo hi"
  unfolding clip_def by arith

lemma clip_ge_upper: "lo \<le> hi \<Longrightarrow> hi \<le> x \<Longrightarrow> clip x lo hi = hi"
  unfolding clip_def by arith

lemma over_rows_nonempty: "df \<noteq> [] \<Longrightarrow> over_rows c f df = Inr (map f df)"
  by (simp add: over_rows_def)

lemma fold_min_replicate: "fold min (replicate n d) (d::real) = d"
  by (induction n) simp_all

lemma fold_max_replicate: "fold max (replicate n d) (d::real) = d"
  by (induction n) simp_all

lemma action_counts_nonneg: "0 \<le> action_counts txs a"
  by (simp add: action_counts_def)

text \<open>Every row of the metrics table is the metrics of one group of transactions.\<close>

lemma metrics_row_origin:
  assumes "i < length (calculate_wallet_metrics df)"
  shows "\<exists>a txs. calculate_wallet_metrics df ! i = calculate_single_wallet_metrics a txs"
  using assms by (auto simp: calculate_wallet_metrics_def split: if_splits)

text \<open>The wallets of the metrics table are the addresses that occur in the transaction
  table, which are the addresses of the input wallets with at least one transaction.\<close>

lemma metrics_addresses:
  "map wallet_address (calculate_wallet_metrics df) = sort (remdups (map tx_wallet_address df))"
  by (simp add: calculate_wallet_metrics_def calculate_single_wallet_metrics_def comp_def)

lemma all_transactions_addresses:
  "set (map tx_wallet_address (all_transactions wd))
     = address ` {w \<in> set wd. dict_get (transactions w) [] \<noteq> []}"
proof (induction wd)
  case Nil
  then show ?case by (simp add: all_transactions_def)
next
  case (Cons w wd)
  have step: "all_transactions (w # wd)
      = map (processed_tx (address w)) (dict_get (transactions w) []) @ all_transactions wd"
    by (simp add: all_transactions_def)
  have here: "set (map tx_wallet_address (map (processed_tx (address w)) (dict_get (transactions w) [])))
      = (if dict_get (transactions w) [] = [] then {} else {address w})"
    by (cases "dict_get (transactions w) []") (auto simp: processed_tx_def)
  show ?case
    unfolding step using Cons.IH here by auto
qed

lemma wallets_with_metrics:
  "set (map wallet_address (calculate_wallet_metrics (process_wallet_data wd)))
     = address ` {w \<in> set wd. dict_get (transactions w) [] \<noteq> []}"
proof -
  have "set (map tx_wallet_address (process_wallet_data wd))
      = set (map tx_wallet_address (all_transactions wd))"
    by (simp add: process_wallet_data_def Let_def)
  then show ?thesis
    using all_transactions_addresses[of wd] by (simp add: metrics_addresses)
qed

text \<open>What the code computes is non-decreasing in the anomaly score: the adjustment
  \<open>(1 - a) * 0.1\<close> is subtracted from the composite risk.\<close>

lemma final_risk_score_nondecreasing:
  "a \<le> b \<Longrightarrow> final_risk_score c a \<le> final_risk_score c b"
  unfolding final_risk_score_def anomaly_adjustment_def by (rule clip_mono) simp

text \<open>The age bins as the loop computes them: an age of 0 lies in no bin, since the lower
  bound of every bin is exclusive.\<close>

lemma age_score_bins:
  "age_score a =
     (if a \<le> 0 then 0
      else if a \<le> 30 then 0.1
      else if a \<le> 90 then 0.3
      else if a \<le> 180 then 0.5
      else if a \<le> 365 then 0.7
      else 1.0)"
  by (simp add: age_score_def age_bin_step_def age_bins_def age_scores_def upt_rec numeral_eq_Suc)

text \<open>All decision scores equal: every normalised score is \<open>0 / 0\<close>.\<close>

lemma normalized_scores_constant:
  "normalized_scores (replicate (Suc n) d) = Inr (replicate (Suc n) NaN)"
  by (simp add: normalized_scores_def fold_min_replicate fold_max_replicate np_true_divide_def
        map_replicate_const del: fold_replicate)

text \<open>Decision scores that are not all equal: every normalised score is a number
  between 0 and 1.\<close>

lemma series_min_le: "s \<in> set (d # ds) \<Longrightarrow> series_min d ds \<le> s"
  using Min_le[of "set (d # ds)" s] by (simp add: Min.set_eq_fold del: set_simps)

lemma series_max_ge: "s \<in> set (d # ds) \<Longrightarrow> s \<le> series_max d ds"
  using Max_ge[of "set (d # ds)" s] by (simp add: Max.set_eq_fold del: set_simps)

lemma normalized_scores_unit_interval:
  assumes "series_min d ds < series_max d ds"
  shows "\<exists>ns. normalized_scores (d # ds) = Inr ns \<and> length ns = Suc (length ds)
           \<and> (\<forall>n \<in> set ns. \<exists>x::real. n = Fin x \<and> 0 \<le> x \<and> x \<le> 1)"
proof -
  let ?mn = "series_min d ds" and ?mx = "series_max d ds"
  have "\<exists>x. np_true_divide (s - ?mn) (?mx - ?mn) = Fin x \<and> 0 \<le> x \<and> x \<le> 1"
    if "s \<in> set (d # ds)" for s
  proof -
    have "?mn \<le> s" "s \<le> ?mx"
      using that series_min_le series_max_ge by blast+
    then show ?thesis
      using assms by (simp add: np_true_divide_def)
  qed
  then show ?thesis
    unfolding normalized_scores_def by auto
qed

text \<open>The categories partition the credit scores, with bands closed at their lower
  bound; the category of a row is that of its credit score before rounding, and the
  reported score is within one half of it.\<close>

lemma categorize_risk_bands:
  "(categorize_risk c = ''Low Risk'') = (800 \<le> c)"
  "(categorize_risk c = ''Medium-Low Risk'') = (600 \<le> c \<and> c < 800)"
  "(categorize_risk c = ''Medium Risk'') = (400 \<le> c \<and> c < 600)"
  "(categorize_risk c = ''High Risk'') = (200 \<le> c \<and> c < 400)"
  "(categorize_risk c = ''Very High Risk'') = (c < 200)"
  by (auto simp: categorize_risk_def)

lemma score_row_finite:
  "score_row r (Fin a) = Inr row \<Longrightarrow>
     score row = np_round (credit_score (final_risk_score (composite_score_row r) a))
     \<and> risk_category row
         = categorize_risk (credit_score (final_risk_score (composite_score_row r) a))"
  by (auto simp: score_row_def)

lemma np_round_close: "\<bar>of_int (np_round x) - x\<bar> \<le> 1 / 2"
  unfolding np_round_def Let_def by (auto; linarith)

text \<open>An undefined anomaly score makes the cast to integer of \<^verbatim>\<open>calculate_scores\<close> raise.\<close>

lemma calculate_scores_nan_raises:
  "calculate_scores [r] [NaN]
     = Inl (ValueError ''Cannot convert non-finite values (NA or inf) to integer'')"
  by (simp add: calculate_scores_def score_row_def)

lemma liquidation_row_saturates:
  assumes "2 \<le> liquidation_count (calculate_single_wallet_metrics a txs)"
  shows "liquidation_risk_row (calculate_single_wallet_metrics a txs) = 1"
proof -
  let ?m = "calculate_single_wallet_metrics a txs"
  have c: "2 \<le> action_counts txs ''liquidateBorrow''"
    using assms by (simp add: calculate_single_wallet_metrics_def)
  have rate: "0 \<le> liquidation_rate ?m"
    by (simp add: calculate_single_wallet_metrics_def action_counts_nonneg)
  have has: "has_liquidations ?m = 1"
    using c by (simp add: calculate_single_wallet_metrics_def)
  have cnt: "(2::real) \<le> of_int (liquidation_count ?m)"
    using assms by linarith
  have "1 \<le> 0 + of_int (liquidation_count ?m) * 0.5 + liquidation_rate ?m * 0.3
            + of_int (has_liquidations ?m) * 0.2"
    using cnt rate has by simp
  then show ?thesis
    unfolding liquidation_risk_row_def by (intro clip_ge_upper) simp_all
qed

lemma repayment_row_buckets:
  assumes "borrow_count (calculate_single_wallet_metrics a txs) = 0"
    and "1 \<le> repayBorrow_count (calculate_single_wallet_metrics a txs)"
    and "liquidation_count (calculate_single_wallet_metrics a txs) = 0"
  shows "repay_to_borrow_ratio (calculate_single_wallet_metrics a txs)
           = of_int (repayBorrow_count (calculate_single_wallet_metrics a txs)) / of_int (max 0 1)"
    and "1 \<le> repay_to_borrow_ratio (calculate_single_wallet_metrics a txs)"
    and "repayment_behavior_row (calculate_single_wallet_metrics a txs)
           = clip (0 + 0.5 + 0.2 + 0.3) 0 1"
proof -
  let ?m = "calculate_single_wallet_metrics a txs"
  have b: "action_counts txs ''borrow'' = 0"
    using assms(1) by (simp add: calculate_single_wallet_metrics_def)
  show ratio: "repay_to_borrow_ratio ?m = of_int (repayBorrow_count ?m) / of_int (max 0 1)"
    using b by (simp add: calculate_single_wallet_metrics_def)
  have "(1::real) \<le> of_int (repayBorrow_count ?m)"
    using assms(2) by linarith
  then show ge: "1 \<le> repay_to_borrow_ratio ?m"
    using ratio by simp
  show "repayment_behavior_row ?m = clip (0 + 0.5 + 0.2 + 0.3) 0 1"
    using ge assms(1,3) by (simp add: repayment_behavior_row_def)
qed

section \<open>The claims\<close>

text \<open>
  C1. Claim: with the composite risk fixed, a wallet with a lower anomaly score (less
  normal) gets a final risk at least as high, and a credit score at most as high, as a
  wallet with a higher anomaly score. The code subtracts the adjustment, so it does the
  opposite: of two wallets with the same sub-scores (composite risk 0.5), the one with
  anomaly score 0 is reported with score 600 and the one with anomaly score 1 with
  score 500.
\<close>

theorem less_normal_wallet_scores_higher:
  "(case calculate_scores
           [ \<lparr> metrics = m, liquidation_risk_score = 1, behavioral_risk_score = 1,
               financial_health_score = 1, activity_pattern_risk = 1,
               repayment_behavior_score = 1, experience_score = 1,
               diversification_score = 1, bot_behavior_score = 0 \<rparr>,
             \<lparr> metrics = m, liquidation_risk_score = 1, behavioral_risk_score = 1,
               financial_health_score = 1, activity_pattern_risk = 1,
               repayment_behavior_score = 1, experience_score = 1,
               diversification_score = 1, bot_behavior_score = 0 \<rparr> ]
           [Fin 0, Fin 1] of
      Inr rows \<Rightarrow> map score rows = [600, 500]
    | Inl e \<Rightarrow> False)
   \<and> final_risk_score (1 / 2) 0 = 2 / 5 \<and> final_risk_score (1 / 2) 1 = 1 / 2"
  by (simp add: calculate_scores_def score_row_def composite_score_row_def weight_def weights_def
        clip_def final_risk_score_def anomaly_adjustment_def credit_score_def np_round_def
        categorize_risk_def Let_def)

text \<open>
  C2. Claim: the reported integer score determines the category, and a reported score of
  exactly 800 is 'Low Risk'. The code rounds the credit score for the report but
  categorises the credit score before rounding: a wallet with composite risk 0.25 and
  anomaly score 0.504 has credit score 799.6, is reported with score 800 and is
  categorised 'Medium-Low Risk'.
\<close>

theorem reported_800_is_medium_low:
  "(case calculate_scores
           [ \<lparr> metrics = m, liquidation_risk_score = 1, behavioral_risk_score = 0,
               financial_health_score = 1, activity_pattern_risk = 0,
               repayment_behavior_score = 1, experience_score = 1,
               diversification_score = 1, bot_behavior_score = 0 \<rparr> ]
           [Fin (504 / 1000)] of
      Inr rows \<Rightarrow> map score rows = [800] \<and> map risk_category rows = [''Medium-Low Risk'']
    | Inl e \<Rightarrow> False)"
  by (simp add: calculate_scores_def score_row_def composite_score_row_def weight_def weights_def
        clip_def final_risk_score_def anomaly_adjustment_def credit_score_def np_round_def
        categorize_risk_def Let_def)

text \<open>
  C3. Claim: when all decision scores of a non-empty batch are equal, the normalisation
  applies a fallback and returns a defined score in [0, 1] for every wallet. The code has
  no fallback: whatever the common decision score \<open>d\<close> is, every wallet of the batch gets
  \<open>0 / 0 = NaN\<close>; a batch of one wallet is the case of no further row.
\<close>

theorem equal_decision_scores_give_nan:
  "detect_anomalies (\<lambda>X. map (\<lambda>x. d) X) (r # rs) = Inr (replicate (Suc (length rs)) NaN)"
  using normalized_scores_constant[of "length rs" d]
  by (simp add: detect_anomalies_def map_replicate_const)

text \<open>
  C4. Claim: a wallet with no borrow, at least one repayBorrow and no liquidation has
  \<open>repay_to_borrow_ratio = repayBorrow_count / max(0, 1) \<ge> 1\<close>, and its repayment
  behaviour score adds the bucket of the ratio (0.5), the bucket of the non-borrowers
  (0.2) and the bucket of no liquidation (0.3): it is \<open>clip(1.0, 0, 1) = 1\<close>.
\<close>

theorem repayment_behavior_additive_buckets:
  assumes "wm = calculate_wallet_metrics df"
    and "i < length wm"
    and "borrow_count (wm ! i) = 0"
    and "1 \<le> repayBorrow_count (wm ! i)"
    and "liquidation_count (wm ! i) = 0"
  shows "repay_to_borrow_ratio (wm ! i) = of_int (repayBorrow_count (wm ! i)) / of_int (max 0 1)
       \<and> 1 \<le> repay_to_borrow_ratio (wm ! i)
       \<and> (\<exists>scores. calculate_repayment_behavior wm = Inr scores
             \<and> scores ! i = clip (0 + 0.5 + 0.2 + 0.3) 0 1 \<and> scores ! i = 1)"
proof -
  obtain a txs where m: "wm ! i = calculate_single_wallet_metrics a txs"
    using metrics_row_origin assms(1,2) by blast
  have "wm \<noteq> []" using assms(2) by auto
  then have f: "calculate_repayment_behavior wm = Inr (map repayment_behavior_row wm)"
    by (simp add: calculate_repayment_behavior_def over_rows_nonempty)
  have row: "map repayment_behavior_row wm ! i = clip (0 + 0.5 + 0.2 + 0.3) 0 1"
    using assms(2-5) m repayment_row_buckets(3)[of a txs] by simp
  have one: "clip (0 + 0.5 + 0.2 + 0.3) 0 1 = (1::real)"
    by (simp add: clip_def)
  show ?thesis
    using assms(3-5) m repayment_row_buckets(1,2)[of a txs] f row one by auto
qed

text \<open>The wallet of the example of the specification: a mint at time 0 and a repayBorrow
  one day later, both successful.\<close>

theorem repayment_behavior_additive_buckets_witness:
  "(let wm = calculate_wallet_metrics (process_wallet_data
       [ \<lparr> address = ''0xa'',
           transactions = Some
             [ \<lparr> raw_hash = Some ''0x01'', raw_blockNumber = Some 1, raw_timeStamp = Some 0,
                 raw_value = Some 0, raw_gasUsed = Some 21000, raw_gasPrice = Some 1,
                 raw_compound_action = Some ''mint'', raw_isError = Some 0 \<rparr>,
               \<lparr> raw_hash = Some ''0x02'', raw_blockNumber = Some 2, raw_timeStamp = Some 86400,
                 raw_value = Some 0, raw_gasUsed = Some 21000, raw_gasPrice = Some 1,
                 raw_compound_action = Some ''repayBorrow'', raw_isError = Some 0 \<rparr> ] \<rparr> ])
    in 0 < length wm \<and> borrow_count (wm ! 0) = 0 \<and> 1 \<le> repayBorrow_count (wm ! 0)
       \<and> liquidation_count (wm ! 0) = 0
       \<and> repay_to_borrow_ratio (wm ! 0) = of_int (repayBorrow_count (wm ! 0)) / of_int (max 0 1)
       \<and> 1 \<le> repay_to_borrow_ratio (wm ! 0)
       \<and> (\<exists>scores. calculate_repayment_behavior wm = Inr scores
             \<and> scores ! 0 = clip (0 + 0.5 + 0.2 + 0.3) 0 1 \<and> scores ! 0 = 1))"
proof -
  let ?wm = "calculate_wallet_metrics (process_wallet_data
       [ \<lparr> address = ''0xa'',
           transactions = Some
             [ \<lparr> raw_hash = Some ''0x01'', raw_blockNumber = Some 1, raw_timeStamp = Some 0,
                 raw_value = Some 0, raw_gasUsed = Some 21000, raw_gasPrice = Some 1,
                 raw_compound_action = Some ''mint'', raw_isError = Some 0 \<rparr>,
               \<lparr> raw_hash = Some ''0x02'', raw_blockNumber = Some 2, raw_timeStamp = Some 86400,
                 raw_value = Some 0, raw_gasUsed = Some 21000, raw_gasPrice = Some 1,
                 raw_compound_action = Some ''repayBorrow'', raw_isError = Some 0 \<rparr> ] \<rparr> ])"
  have len: "0 < length ?wm"
    by (simp add: process_wallet_data_def all_transactions_def dict_get_def processed_tx_def
          calculate_wallet_metrics_def)
  have borrow: "borrow_count (?wm ! 0) = 0"
    by (simp add: process_wallet_data_def all_transactions_def dict_get_def processed_tx_def
          calculate_wallet_metrics_def calculate_single_wallet_metrics_def action_counts_def)
  have repay: "1 \<le> repayBorrow_count (?wm ! 0)"
    by (simp add: process_wallet_data_def all_transactions_def dict_get_def processed_tx_def
          calculate_wallet_metrics_def calculate_single_wallet_metrics_def action_counts_def)
  have liq: "liquidation_count (?wm ! 0) = 0"
    by (simp add: process_wallet_data_def all_transactions_def dict_get_def processed_tx_def
          calculate_wallet_metrics_def calculate_single_wallet_metrics_def action_counts_def)
  show ?thesis
    unfolding Let_def
    using len borrow repay liq repayment_behavior_additive_buckets [OF refl len borrow repay liq]
    by blast
qed

text \<open>
  C5. Claim: a wallet of the input whose transaction list is empty still gets a row of
  metrics (with \<open>total_transactions = 0\<close>) and a final score. The code makes the rows of
  the metrics table from the rows of the transaction table, where such a wallet has none:
  of the two wallets below only the one with a transaction has metrics. When no wallet
  has a transaction the metrics table has no column and the feature engine raises.
\<close>

theorem wallet_without_transactions_is_dropped:
  "map wallet_address (calculate_wallet_metrics (process_wallet_data
       [ \<lparr> address = ''0xa'', transactions = Some [] \<rparr>,
         \<lparr> address = ''0xb'',
           transactions = Some
             [ \<lparr> raw_hash = Some ''0x01'', raw_blockNumber = Some 1, raw_timeStamp = Some 0,
                 raw_value = Some 0, raw_gasUsed = Some 21000, raw_gasPrice = Some 1,
                 raw_compound_action = Some ''mint'', raw_isError = Some 0 \<rparr> ] \<rparr> ]))
     = [''0xb'']
   \<and> calculate_risk_features (calculate_wallet_metrics (process_wallet_data
       [ \<lparr> address = ''0xa'', transactions = Some [] \<rparr> ]))
     = Inl (KeyError ''liquidation_count'')"
  by (simp add: process_wallet_data_def all_transactions_def dict_get_def processed_tx_def
        calculate_wallet_metrics_def calculate_single_wallet_metrics_def
        calculate_risk_features_def calculate_liquidation_risk_def over_rows_def bind_err_def)

text \<open>
  C6. Claim: on a batch of no wallet or no transaction every later stage returns an empty
  result and none raises. The normalizer, the aggregator and the anomaly detector return
  empty results, but the empty metrics table has no column: the feature engine raises
  \<^verbatim>\<open>KeyError\<close> on its first column, and so does the score calculator.
\<close>

theorem empty_batch_raises:
  "process_wallet_data [] = []
   \<and> calculate_wallet_metrics (process_wallet_data []) = []
   \<and> calculate_risk_features (calculate_wallet_metrics (process_wallet_data []))
       = Inl (KeyError ''liquidation_count'')
   \<and> detect_anomalies decision_function [] = Inr []
   \<and> calculate_scores [] [] = Inl (KeyError ''wallet_address'')"
  by (simp add: process_wallet_data_def all_transactions_def calculate_wallet_metrics_def
        calculate_risk_features_def calculate_liquidation_risk_def over_rows_def bind_err_def
        detect_anomalies_def calculate_scores_def)

text \<open>
  C7. Claim: the base experience score is 0.1 for every age of at most 30 days, the age 0
  of a wallet with a single transaction included. The lower bound of the first bin is
  exclusive in the code: an age of 0 lies in no bin and keeps the initial 0, and the
  wallet with a single transaction below has age 0 and experience score 0.
\<close>

theorem zero_age_has_zero_experience:
  "age_score 0 = 0
   \<and> map account_age_days (calculate_wallet_metrics (process_wallet_data
       [ \<lparr> address = ''0xa'',
           transactions = Some
             [ \<lparr> raw_hash = Some ''0x01'', raw_blockNumber = Some 1, raw_timeStamp = Some 1700000000,
                 raw_value = Some 0, raw_gasUsed = Some 21000, raw_gasPrice = Some 1,
                 raw_compound_action = Some ''mint'', raw_isError = Some 0 \<rparr> ] \<rparr> ])) = [0]
   \<and> calculate_experience_score (calculate_wallet_metrics (process_wallet_data
       [ \<lparr> address = ''0xa'',
           transactions = Some
             [ \<lparr> raw_hash = Some ''0x01'', raw_blockNumber = Some 1, raw_timeStamp = Some 1700000000,
                 raw_value = Some 0, raw_gasUsed = Some 21000, raw_gasPrice = Some 1,
                 raw_compound_action = Some ''mint'', raw_isError = Some 0 \<rparr> ] \<rparr> ])) = Inr [0]"
  by (simp add: process_wallet_data_def all_transactions_def dict_get_def processed_tx_def
        calculate_wallet_metrics_def calculate_single_wallet_metrics_def
        calculate_experience_score_def over_rows_def experience_score_row_def quantile_def
        age_days_def first_timestamp_def last_timestamp_def age_score_bins clip_def)

text \<open>
  C8. Claim: the table of \<^verbatim>\<open>process_wallet_data\<close> is in ascending order of
  (wallet address, timestamp), and the transactions of one wallet with the same timestamp
  keep their input order. The table is also a rearrangement of the rows of the input.
\<close>

theorem process_wallet_data_sorted_stable:
  "sorted (map (\<lambda>t. (tx_wallet_address t, timestamp t)) (process_wallet_data wallet_data))
   \<and> filter (\<lambda>t. (tx_wallet_address t, timestamp t) = (w, ts)) (process_wallet_data wallet_data)
       = filter (\<lambda>t. (tx_wallet_address t, timestamp t) = (w, ts)) (all_transactions wallet_data)
   \<and> mset (process_wallet_data wallet_data) = mset (all_transactions wallet_data)"
proof -
  have "filter (\<lambda>t. (tx_wallet_address t, timestamp t) = (w, ts))
          (sort_key (\<lambda>t. (tx_wallet_address t, timestamp t)) (all_transactions wallet_data))
        = filter (\<lambda>t. (tx_wallet_address t, timestamp t) = (w, ts)) (all_transactions wallet_data)"
    by (rule sort_key_stable)
  then show ?thesis
    by (simp add: process_wallet_data_def Let_def)
qed

text \<open>
  C9. Claim: the seven weights of the score calculator (liquidation risk 0.25, behavioral
  risk 0.15, financial health 0.20, activity pattern risk 0.10, repayment behavior 0.15,
  experience 0.10, diversification 0.05) sum to 1, within \<open>1e-9\<close>.
\<close>

theorem weights_sum_to_one:
  "map fst weights = [''liquidation_risk'', ''behavioral_risk'', ''financial_health'',
       ''activity_pattern_risk'', ''repayment_behavior'', ''experience'', ''diversification'']
   \<and> map snd weights = [0.25, 0.15, 0.20, 0.10, 0.15, 0.10, 0.05]
   \<and> sum_list (map snd weights) = 1
   \<and> \<bar>sum_list (map snd weights) - 1\<bar> \<le> 1 / 10 ^ 9"
  by (simp add: weights_def)

text \<open>
  C10. Claim: for every wallet with at least two liquidations the liquidation risk score
  is exactly 1: the term of 0.5 for each liquidation reaches the ceiling of the clip, and
  the other two terms are not negative.
\<close>

theorem liquidation_risk_saturates:
  assumes "wm = calculate_wallet_metrics df"
    and "i < length wm"
    and "2 \<le> liquidation_count (wm ! i)"
  shows "\<exists>scores. calculate_liquidation_risk wm = Inr scores \<and> scores ! i = 1"
proof -
  obtain a txs where m: "wm ! i = calculate_single_wallet_metrics a txs"
    using metrics_row_origin assms(1,2) by blast
  have "wm \<noteq> []" using assms(2) by auto
  then have "calculate_liquidation_risk wm = Inr (map liquidation_risk_row wm)"
    by (simp add: calculate_liquidation_risk_def over_rows_nonempty)
  moreover have "map liquidation_risk_row wm ! i = 1"
    using assms(2,3) m liquidation_row_saturates[of a txs] by simp
  ultimately show ?thesis by blast
qed

text \<open>A wallet with two liquidations among three transactions.\<close>

theorem liquidation_risk_saturates_witness:
  "(let wm = calculate_wallet_metrics (process_wallet_data
       [ \<lparr> address = ''0xa'',
           transactions = Some
             [ \<lparr> raw_hash = Some ''0x01'', raw_blockNumber = Some 1, raw_timeStamp = Some 0,
                 raw_value = Some 0, raw_gasUsed = Some 21000, raw_gasPrice = Some 1,
                 raw_compound_action = Some ''borrow'', raw_isError = Some 0 \<rparr>,
               \<lparr> raw_hash = Some ''0x02'', raw_blockNumber = Some 2, raw_timeStamp = Some 3600,
                 raw_value = Some 0, raw_gasUsed = Some 21000, raw_gasPrice = Some 1,
                 raw_compound_action = Some ''liquidateBorrow'', raw_isError = Some 0 \<rparr>,
               \<lparr> raw_hash = Some ''0x03'', raw_blockNumber = Some 3, raw_timeStamp = Some 7200,
                 raw_value = Some 0, raw_gasUsed = Some 21000, raw_gasPrice = Some 1,
                 raw_compound_action = Some ''liquidateBorrow'', raw_isError = Some 0 \<rparr> ] \<rparr> ])
    in 0 < length wm \<and> 2 \<le> liquidation_count (wm ! 0)
       \<and> (\<exists>scores. calculate_liquidation_risk wm = Inr scores \<and> scores ! 0 = 1))"
proof -
  let ?wm = "calculate_wallet_metrics (process_wallet_data
       [ \<lparr> address = ''0xa'',
           transactions = Some
             [ \<lparr> raw_hash = Some ''0x01'', raw_blockNumber = Some 1, raw_timeStamp = Some 0,
                 raw_value = Some 0, raw_gasUsed = Some 21000, raw_gasPrice = Some 1,
                 raw_compound_action = Some ''borrow'', raw_isError = Some 0 \<rparr>,
               \<lparr> raw_hash = Some ''0x02'', raw_blockNumber = Some 2, raw_timeStamp = Some 3600,
                 raw_value = Some 0, raw_gasUsed = Some 21000, raw_gasPrice = Some 1,
                 raw_compound_action = Some ''liquidateBorrow'', raw_isError = Some 0 \<rparr>,
               \<lparr> raw_hash = Some ''0x03'', raw_blockNumber = Some 3, raw_timeStamp = Some 7200,
                 raw_value = Some 0, raw_gasUsed = Some 21000, raw_gasPrice = Some 1,
                 raw_compound_action = Some ''liquidateBorrow'', raw_isError = Some 0 \<rparr> ] \<rparr> ])"
  have len: "0 < length ?wm"
    by (simp add: process_wallet_data_def all_transactions_def dict_get_def processed_tx_def
          calculate_wallet_metrics_def)
  have liq: "2 \<le> liquidation_count (?wm ! 0)"
    by (simp add: process_wallet_data_def all_transactions_def dict_get_def processed_tx_def
          calculate_wallet_metrics_def calculate_single_wallet_metrics_def action_counts_def)
  show ?thesis
    unfolding Let_def
    using len liq liquidation_risk_saturates [OF refl len liq]
    by blast
qed

end
